theory Spec2Isabelle
  imports Complex_Main
begin

section \<open>Numeric model\<close>

text \<open>
  The scripts compute with NumPy and Python floating-point numbers. A finite number is
  modelled as a \<^typ>\<open>real\<close> and the arithmetic on finite numbers as exact real
  arithmetic: rounding is not modelled. A value of type \<^typ>\<open>real option\<close> is a float
  that may be non-finite: \<open>None\<close> stands for NaN or an infinity, which NumPy returns
  (with a warning, not an exception) where the real function is undefined.
\<close>

type_synonym npfloat = "real option"

definition np_sqrt :: "real \<Rightarrow> npfloat" where
  \<comment> \<open>\<open>np.sqrt\<close>: NaN for a negative argument.\<close>
  "np_sqrt x = (if x < 0 then None else Some (sqrt x))"

definition np_div :: "real \<Rightarrow> real \<Rightarrow> npfloat" where
  \<comment> \<open>Division of NumPy floats: a zero divisor gives NaN or an infinity.\<close>
  "np_div a b = (if b = 0 then None else Some (a / b))"

definition np_clip :: "real \<Rightarrow> real \<Rightarrow> real \<Rightarrow> real" where
  \<comment> \<open>\<open>np.clip(x, lo, hi)\<close> is \<open>minimum(maximum(x, lo), hi)\<close>.\<close>
  "np_clip x lo hi = min (max x lo) hi"

definition np_gt :: "npfloat \<Rightarrow> real \<Rightarrow> bool" where
  \<comment> \<open>\<open>a > b\<close>: every comparison with NaN is false.\<close>
  "np_gt a b = (case a of None \<Rightarrow> False | Some x \<Rightarrow> x > b)"

definition np_lt :: "npfloat \<Rightarrow> real \<Rightarrow> bool" where
  "np_lt a b = (case a of None \<Rightarrow> False | Some x \<Rightarrow> x < b)"

section \<open>The semicircle constraint (test\_semicircle\_constraint.py)\<close>

definition c_qc :: "real \<Rightarrow> npfloat" where
  \<comment> \<open>\<open>c_qc = np.sqrt(q * (1 - q))\<close>\<close>
  "c_qc q = np_sqrt (q * (1 - q))"

definition residual :: "real \<Rightarrow> real \<Rightarrow> real" where
  \<comment> \<open>\<open>residual = (q - 0.5)**2 + c_qc**2 - 0.25\<close>, for a finite \<open>c_qc\<close>\<close>
  "residual q c = (q - 1/2)\<^sup>2 + c\<^sup>2 - 1/4"

definition edge_residual :: "real \<Rightarrow> npfloat" where
  \<comment> \<open>Phase 3: the residual of one edge case \<open>q\<close>.\<close>
  "edge_residual q = map_option (residual q) (c_qc q)"

definition radius :: "real \<Rightarrow> npfloat" where
  \<comment> \<open>Phase 4: \<open>x = q - 0.5; y = np.sqrt(q * (1 - q)); r = np.sqrt(x**2 + y**2)\<close>\<close>
  "radius q = (case c_qc q of None \<Rightarrow> None | Some y \<Rightarrow> np_sqrt ((q - 1/2)\<^sup>2 + y\<^sup>2))"


subsection \<open>Aggregates\<close>

text \<open>
  The exceptions that occur. \<open>Exception msg\<close> is any other instance of class \<open>Exception\<close>,
  with its message. \<open>KeyboardInterrupt\<close> and \<open>SystemExit\<close> derive from \<open>BaseException\<close>
  only, so that \<open>except Exception\<close> does not catch them.
\<close>

datatype exn =
    ValueError string
  | FileNotFoundError string
  | TypeError string
  | ZeroDivisionError string
  | Exception string
  | KeyboardInterrupt
  | SystemExit

fun isinstance_Exception :: "exn \<Rightarrow> bool" where
  "isinstance_Exception KeyboardInterrupt = False"
| "isinstance_Exception SystemExit = False"
| "isinstance_Exception _ = True"

fun str :: "exn \<Rightarrow> string" where
  "str (ValueError msg) = msg"
| "str (FileNotFoundError msg) = msg"
| "str (TypeError msg) = msg"
| "str (ZeroDivisionError msg) = msg"
| "str (Exception msg) = msg"
| "str KeyboardInterrupt = []"
| "str SystemExit = []"

definition np_mean :: "real list \<Rightarrow> npfloat" where
  \<comment> \<open>\<open>np.mean\<close>: the mean of an empty array is NaN (0/0, with a warning).\<close>
  "np_mean xs = (if xs = [] then None else Some (sum_list xs / real (length xs)))"

definition np_std :: "real list \<Rightarrow> npfloat" where
  \<comment> \<open>\<open>np.std\<close>: \<open>sqrt(mean(abs(x - mean(x))**2))\<close>\<close>
  "np_std xs =
     Option.bind (np_mean xs) (\<lambda>m.
       Option.bind (np_mean (map (\<lambda>x. \<bar>x - m\<bar>\<^sup>2) xs)) np_sqrt)"

definition rms :: "real list \<Rightarrow> npfloat" where
  \<comment> \<open>\<open>np.sqrt(np.mean(np.array(residuals)**2))\<close>\<close>
  "rms rs = Option.bind (np_mean (map (\<lambda>r. r\<^sup>2) rs)) np_sqrt"

fun py_max :: "real list \<Rightarrow> exn + real" where
  \<comment> \<open>The built-in \<open>max\<close> of a sequence, which raises on an empty one.\<close>
  "py_max [] = Inl (ValueError ''max() arg is an empty sequence'')"
| "py_max (x # xs) = Inr (fold max xs x)"

definition random_stats :: "real list \<Rightarrow> exn + (npfloat \<times> real)" where
  \<comment> \<open>Phase 2: \<open>rms_random\<close>, then \<open>max_random = max(residuals_random)\<close>.\<close>
  "random_stats rs =
     (let rms_random = rms rs
      in case py_max rs of Inl e \<Rightarrow> Inl e | Inr max_random \<Rightarrow> Inr (rms_random, max_random))"

subsection \<open>The test function\<close>

definition linspace :: "real \<Rightarrow> real \<Rightarrow> nat \<Rightarrow> real list" where
  \<comment> \<open>\<open>np.linspace(start, stop, num)\<close>\<close>
  "linspace start stop num =
     map (\<lambda>i. start + real i * ((stop - start) / real (num - 1))) [0..<num]"

definition sample_residual :: "real \<Rightarrow> real" where
  \<comment> \<open>Phases 1 and 2: \<open>c_qc = np.sqrt(max(0, q * (1 - q)))\<close>, whose argument is never
      negative, and \<open>abs(residual)\<close>.\<close>
  "sample_residual q = \<bar>residual q (sqrt (max 0 (q * (1 - q))))\<bar>"

definition residuals_uniform :: "(nat \<Rightarrow> real) \<Rightarrow> real list" where
  \<comment> \<open>Phase 1; \<open>noise i\<close> is the \<open>i\<close>-th draw of \<open>np.random.normal(0, 0.005)\<close>.\<close>
  "residuals_uniform noise =
     map (\<lambda>(i, q). sample_residual (np_clip (q + noise i) (1/1000) (999/1000)))
       (enumerate 0 (linspace (1/100) (99/100) 50))"

definition residuals_random :: "(nat \<Rightarrow> real) \<Rightarrow> (nat \<Rightarrow> real) \<Rightarrow> real list" where
  \<comment> \<open>Phase 2; \<open>theta i\<close> and \<open>noise i\<close> are the draws of the \<open>i\<close>-th iteration.\<close>
  "residuals_random theta noise =
     map (\<lambda>i. sample_residual (np_clip ((sin (theta i / 2))\<^sup>2 + noise i) (1/1000) (999/1000)))
       [0..<100]"

definition radii :: "npfloat list" where
  "radii = map radius (linspace (1/100) (99/100) 100)"

definition passed_criteria :: "npfloat \<Rightarrow> npfloat \<Rightarrow> real \<Rightarrow> npfloat \<Rightarrow> bool" where
  \<comment> \<open>The pass criteria of \<open>run_test26_semicircle_constraint\<close>.\<close>
  "passed_criteria rms_uniform rms_random max_random mean_radius =
     (np_lt rms_uniform (1/1000) \<and>
      np_lt rms_random (1/1000) \<and>
      max_random < 1/100 \<and>
      np_lt (map_option (\<lambda>m. \<bar>m - 1/2\<bar>) mean_radius) (1/1000))"

record test26_result =
  passed :: bool
  rms_uniform :: npfloat
  rms_random :: npfloat
  max_residual :: real
  mean_radius :: npfloat
  radius_std :: npfloat

definition run_test26_semicircle_constraint ::
  "(nat \<Rightarrow> real) \<Rightarrow> (nat \<Rightarrow> real) \<Rightarrow> (nat \<Rightarrow> real) \<Rightarrow> exn + test26_result" where
  "run_test26_semicircle_constraint noise1 theta noise2 =
     (let rms_u = rms (residuals_uniform noise1)
      in case random_stats (residuals_random theta noise2) of
           Inl e \<Rightarrow> Inl e
         | Inr (rms_r, max_r) \<Rightarrow>
             (let mean_r = Option.bind (those radii) np_mean;
                  std_r = Option.bind (those radii) np_std
              in Inr \<lparr>passed = passed_criteria rms_u rms_r max_r mean_r,
                      rms_uniform = rms_u, rms_random = rms_r, max_residual = max_r,
                      mean_radius = mean_r, radius_std = std_r\<rparr>))"

section \<open>The sensitivity of the correlation\<close>

definition deriv :: "real \<Rightarrow> npfloat" where
  \<comment> \<open>test\_optimal\_operating\_point.py, Phase 4:
      \<open>if c_qc > 0: deriv = (1 - 2*q) / (2 * c_qc) else: deriv = 0\<close>.
      A NaN \<open>c_qc\<close> fails the comparison and takes the \<open>else\<close> branch.\<close>
  "deriv q =
     (case c_qc q of
        None \<Rightarrow> Some 0
      | Some c \<Rightarrow> if c > 0 then np_div (1 - 2 * q) (2 * c) else Some 0)"

definition dCdq :: "real \<Rightarrow> npfloat" where
  \<comment> \<open>generate\_figures.py, one element of
      \<open>np.where(q*(1-q) > 0, np.abs(1 - 2*q) / (2 * np.sqrt(q*(1-q))), 0)\<close>\<close>
  "dCdq q =
     (if q * (1 - q) > 0
      then Option.bind (np_sqrt (q * (1 - q))) (\<lambda>s. np_div \<bar>1 - 2 * q\<bar> (2 * s))
      else Some 0)"

section \<open>Depth scaling\<close>

definition depth_variance :: "nat \<Rightarrow> real \<Rightarrow> real" where
  \<comment> \<open>test\_barren\_plateau\_geometry.py, Phase 3: \<open>noise\<close> is the draw of
      \<open>np.random.normal(0, 0.01)\<close>.\<close>
  "depth_variance n_layers noise = max 0 ((1/4) * (9/10) ^ n_layers + noise)"

definition depth_results :: "(nat \<Rightarrow> real) \<Rightarrow> (nat \<times> real) list" where
  "depth_results noise =
     map (\<lambda>(i, n_layers). (n_layers, depth_variance n_layers (noise i)))
       (enumerate 0 [1, 2, 4, 8, 16])"

definition np_log :: "real \<Rightarrow> npfloat" where
  \<comment> \<open>\<open>np.log\<close>: minus infinity at 0, NaN below 0.\<close>
  "np_log x = (if x \<le> 0 then None else Some (ln x))"

definition log_var :: "real list \<Rightarrow> npfloat list" where
  \<comment> \<open>generate\_figures.py: \<open>log_var = np.log(variances)\<close>\<close>
  "log_var variances = map np_log variances"

definition polyfit1 :: "real list \<Rightarrow> npfloat list \<Rightarrow> exn + (real \<times> real) option" where
  \<comment> \<open>\<open>np.polyfit(x, y, 1)\<close> as (slope, intercept), like \<open>coeffs[0]\<close> and \<open>coeffs[1]\<close>.
      It raises \<open>TypeError\<close> for an empty \<open>x\<close> and for lengths that differ. Otherwise it
      solves the least-squares problem on columns scaled to unit length: with two distinct
      abscissae that is the least-squares line; with abscissae all equal to \<open>a\<close> the
      solver returns the minimum-norm solution (and warns), which is
      \<open>(mean y / (2 a), mean y / 2)\<close>, and for \<open>a = 0\<close> the scaling divides 0 by 0.
      \<open>Inr None\<close>: non-finite data, which leave no finite coefficients.\<close>
  "polyfit1 xs ys =
     (if xs = [] then Inl (TypeError ''expected non-empty vector for x'')
      else if length xs \<noteq> length ys
      then Inl (TypeError ''expected x and y to have same length'')
      else
        (case those ys of
           None \<Rightarrow> Inr None
         | Some zs \<Rightarrow>
             (let n = real (length xs);
                  sx = sum_list xs; sy = sum_list zs;
                  sxx = sum_list (map (\<lambda>x. x * x) xs);
                  sxy = sum_list (map (\<lambda>(x, y). x * y) (zip xs zs));
                  d = n * sxx - sx * sx
              in if d \<noteq> 0
                 then Inr (Some ((n * sxy - sx * sy) / d, (sy * sxx - sx * sxy) / d))
                 else if sxx = 0 then Inr None
                 else Inr (Some (sy / (2 * sx), sy / (2 * n))))))"

definition coeffs :: "real list \<Rightarrow> real list \<Rightarrow> exn + (real \<times> real) option" where
  \<comment> \<open>\<open>log_var = np.log(variances); coeffs = np.polyfit(depths, log_var, 1)\<close>\<close>
  "coeffs depths variances = polyfit1 depths (log_var variances)"

definition decay_rate :: "real list \<Rightarrow> real list \<Rightarrow> exn + real option" where
  \<comment> \<open>The rate shown in the legend of the fit: \<open>abs(coeffs[0])\<close>\<close>
  "decay_rate depths variances =
     map_sum id (map_option (\<lambda>c. \<bar>fst c\<bar>)) (coeffs depths variances)"

section \<open>The hardware test runner (azure\_quantum\_tests.py)\<close>

record test_info =
  name :: string
  "file" :: string
  description :: string
  entry_point :: string
  q_values :: "real list"

definition TESTS :: "int \<Rightarrow> test_info option" where
  "TESTS n =
     (if n = 1 then Some \<lparr>name = ''Semicircle Constraint Validation'',
          file = ''Test1_SemicircleConstraintValidation.qs'',
          description = ''Validates (q - 0.5)^2 + C_qc^2 = 0.25'',
          entry_point = ''FourDLT.Tests.MeasureConstraintAtQ'',
          q_values = [5/100, 10/100, 15/100, 20/100, 25/100, 30/100, 35/100, 40/100, 45/100,
                      50/100, 55/100, 60/100, 65/100, 70/100, 75/100]\<rparr>
      else if n = 2 then Some \<lparr>name = ''Optimal Operating Point'',
          file = ''Test2_OptimalOperatingPoint.qs'',
          description = ''Verifies q = 0.5 maximizes C_qc'',
          entry_point = ''FourDLT.Tests.MeasureCoherenceAtQ'',
          q_values = [1/10, 2/10, 3/10, 4/10, 5/10, 6/10, 7/10, 8/10, 9/10]\<rparr>
      else if n = 3 then Some \<lparr>name = ''Barren Plateau Geometry'',
          file = ''Test3_BarrenPlateauGeometry.qs'',
          description = ''Tests gradient variance scaling with q'',
          entry_point = ''FourDLT.Tests.MeasureGradientAtQ'',
          q_values = [5/100, 1/10, 2/10, 3/10, 5/10, 7/10, 8/10, 9/10, 95/100]\<rparr>
      else None)"

text \<open>
  What the function reads from outside: the module flag \<open>QSHARP_AVAILABLE\<close>, the file
  system, the clock, and the Q\# compiler and the device. \<open>load_and_compile\<close> is the
  exception that reading or compiling the file raises, if it raises;
  \<open>submit_job i entry q\<close> is the outcome of the \<open>i\<close>-th job, either the exception that
  submitting, waiting or fetching raises, or the job id and the shots. Such an exception
  may be of any class: the wait for a job has no timeout, and an interrupt during it is a
  \<open>KeyboardInterrupt\<close>. Printing is left out.
\<close>

record env =
  QSHARP_AVAILABLE :: bool
  file_exists :: "string \<Rightarrow> bool"
  now_isoformat :: string
  load_and_compile :: "string \<Rightarrow> exn option"
  submit_job :: "nat \<Rightarrow> string \<Rightarrow> real \<Rightarrow> exn + (string \<times> int list)"

record measurement =
  q_theory :: real
  q_measured :: real
  c_qc_measured :: npfloat
  c_qc_theory :: npfloat
  ones_count :: int
  zeros_count :: int
  job_id :: string

record summary =
  total_measurements :: nat
  total_shots :: int
  correlation :: npfloat
  mean_q_error :: npfloat
  std_q_error :: npfloat
  max_q_error :: real

record results =
  test_number :: int
  test_name :: string
  description :: string
  target :: string
  shots :: int
  timestamp :: string
  measurements :: "measurement list"
  error :: "string option"
  summary :: "summary option"
  passed :: "bool option"

definition py_round :: "real \<Rightarrow> nat \<Rightarrow> real" where
  \<comment> \<open>\<open>round(x, ndigits)\<close>: to the nearest multiple of \<open>10 ** -ndigits\<close>, ties to even.\<close>
  "py_round x ndigits =
     (let s = 10 ^ ndigits; y = x * s; f = \<lfloor>y\<rfloor>; d = y - of_int f
      in of_int (if d < 1/2 then f else if 1/2 < d then f + 1
                 else if even f then f else f + 1) / s)"

definition np_corrcoef :: "real list \<Rightarrow> real list \<Rightarrow> npfloat" where
  \<comment> \<open>\<open>np.corrcoef(x, y)[0, 1]\<close>: the covariance divided by the two standard deviations
      in turn, clipped to [-1, 1]; NaN when a standard deviation is 0.\<close>
  "np_corrcoef xs ys =
     (let n = real (length xs);
          mx = sum_list xs / n; my = sum_list ys / n;
          cxy = sum_list (map (\<lambda>(x, y). (x - mx) * (y - my)) (zip xs ys)) / (n - 1);
          cxx = sum_list (map (\<lambda>x. (x - mx)\<^sup>2) xs) / (n - 1);
          cyy = sum_list (map (\<lambda>y. (y - my)\<^sup>2) ys) / (n - 1)
      in Option.bind (np_div cxy (sqrt cxx)) (\<lambda>r.
           map_option (\<lambda>c. np_clip c (- 1) 1) (np_div r (sqrt cyy))))"

fun measure_all ::
  "env \<Rightarrow> string \<Rightarrow> int \<Rightarrow> nat \<Rightarrow> real list \<Rightarrow> measurement list
     \<Rightarrow> measurement list \<times> exn option" where
  \<comment> \<open>The loop over \<open>q_values\<close>: the measurements appended so far, and the exception that
      ended the loop, if one did.\<close>
  "measure_all e entry n_shots i [] acc = (acc, None)"
| "measure_all e entry n_shots i (q # qs) acc =
     (case submit_job e i entry q of
        Inl ex \<Rightarrow> (acc, Some ex)
      | Inr (jid, result) \<Rightarrow>
          (let ones = int (length (filter (\<lambda>r. r = 1) result))
           in if n_shots = 0 then (acc, Some (ZeroDivisionError ''division by zero''))
              else
                (let q_meas = real_of_int ones / real_of_int n_shots;
                     m = \<lparr>q_theory = q,
                          q_measured = py_round q_meas 4,
                          c_qc_measured = map_option (\<lambda>c. py_round c 4) (c_qc q_meas),
                          c_qc_theory = map_option (\<lambda>c. py_round c 4) (c_qc q),
                          ones_count = ones,
                          zeros_count = n_shots - ones,
                          job_id = jid\<rparr>
                 in measure_all e entry n_shots (Suc i) qs (acc @ [m]))))"

definition correlation_of :: "measurement list \<Rightarrow> npfloat" where
  \<comment> \<open>\<open>np.corrcoef(q_theory, q_meas)[0, 1]\<close> for more than one measurement, else 1.0\<close>
  "correlation_of ms =
     (if 1 < length ms then np_corrcoef (map q_theory ms) (map q_measured ms) else Some 1)"

definition summarise :: "results \<Rightarrow> results \<times> exn option" where
  \<comment> \<open>The summary statistics and the verdict, computed when there are measurements.\<close>
  "summarise r =
     (let ms = measurements r
      in if ms = [] then (r, None)
         else
           (let errs = map (\<lambda>m. q_measured m - q_theory m) ms;
                corr = correlation_of ms
            in case py_max (map abs errs) of
                 Inl ex \<Rightarrow> (r, Some ex)
               | Inr mx \<Rightarrow>
                   (r\<lparr>summary := Some \<lparr>total_measurements = length ms,
                          total_shots = int (length ms) * shots r,
                          correlation = map_option (\<lambda>c. py_round c 4) corr,
                          mean_q_error = map_option (\<lambda>c. py_round c 4) (np_mean errs),
                          std_q_error = map_option (\<lambda>c. py_round c 4) (np_std errs),
                          max_q_error = py_round mx 4\<rparr>,
                      passed := Some (np_gt corr (9/10))\<rparr>, None)))"

definition try_body :: "env \<Rightarrow> test_info \<Rightarrow> real list \<Rightarrow> results \<Rightarrow> results \<times> exn option" where
  \<comment> \<open>The body of the \<open>try\<close>: the dictionary as the body left it, and the exception it
      raised, if it raised.\<close>
  "try_body e info qs r =
     (case load_and_compile e (file info) of
        Some ex \<Rightarrow> (r, Some ex)
      | None \<Rightarrow>
          (case measure_all e (entry_point info) (shots r) 0 qs (measurements r) of
             (ms, Some ex) \<Rightarrow> (r\<lparr>measurements := ms\<rparr>, Some ex)
           | (ms, None) \<Rightarrow> summarise (r\<lparr>measurements := ms\<rparr>)))"

definition initial_results :: "env \<Rightarrow> int \<Rightarrow> test_info \<Rightarrow> string \<Rightarrow> int \<Rightarrow> results" where
  "initial_results e test_num info tgt n_shots =
     \<lparr>test_number = test_num, test_name = name info, description = test_info.description info,
      target = tgt, shots = n_shots, timestamp = now_isoformat e, measurements = [],
      error = None, summary = None, passed = None\<rparr>"

definition run_qsharp_test ::
  "env \<Rightarrow> int \<Rightarrow> string \<Rightarrow> int \<Rightarrow> real list option \<Rightarrow> exn + results" where
  \<comment> \<open>\<open>Inl\<close> is an exception that reaches the caller. The messages of the two guards are
      given without the test number and the path that the source formats into them. The
      third \<open>Inl\<close> is \<open>min(q_values)\<close> in the banner, which raises on an empty list. The
      handler is \<open>except Exception as e\<close>: an exception of another class passes through.\<close>
  "run_qsharp_test e test_num tgt n_shots q_values_arg =
     (case TESTS test_num of
        None \<Rightarrow> Inl (ValueError ''Invalid test number'')
      | Some info \<Rightarrow>
          if \<not> file_exists e (file info) then Inl (FileNotFoundError ''Q# test file not found'')
          else
            (let qs = (case q_values_arg of None \<Rightarrow> q_values info | Some qs \<Rightarrow> qs)
             in if qs = [] then Inl (ValueError ''min() arg is an empty sequence'')
                else
                  (let r = initial_results e test_num info tgt n_shots
                   in if \<not> QSHARP_AVAILABLE e
                      then Inr (r\<lparr>error := Some ''Q# SDK not installed''\<rparr>)
                      else
                        (case try_body e info qs r of
                           (r', Some ex) \<Rightarrow>
                             if isinstance_Exception ex
                             then Inr (r'\<lparr>error := Some (str ex), passed := Some False\<rparr>)
                             else Inl ex
                         | (r', None) \<Rightarrow> Inr r'))))"

definition simulator :: env where
  \<comment> \<open>An environment for the examples: every file exists, the Q\# SDK is installed, the
      file compiles, and every job returns ten shots, all 0.\<close>
  "simulator =
     \<lparr>QSHARP_AVAILABLE = True, file_exists = (\<lambda>_. True), now_isoformat = ''2026-01-28T00:00:00'',
      load_and_compile = (\<lambda>_. None),
      submit_job = (\<lambda>i entry q. Inr (''job'', [0, 0, 0, 0, 0, 0, 0, 0, 0, 0]))\<rparr>"

definition interrupted :: env where
  \<comment> \<open>The same environment, with the wait for the first job interrupted from the
      keyboard.\<close>
  "interrupted = simulator\<lparr>submit_job := (\<lambda>i entry q. Inl KeyboardInterrupt)\<rparr>"

section \<open>Properties\<close>

lemma c_qc_unit: "0 \<le> q \<Longrightarrow> q \<le> 1 \<Longrightarrow> c_qc q = Some (sqrt (q * (1 - q)))"
  by (simp add: c_qc_def np_sqrt_def not_less)

lemma circle_algebra: "(q - 1/2)\<^sup>2 + q * (1 - q) = (1/4::real)"
  by (simp add: power2_eq_square algebra_simps)

lemma residual_on_semicircle:
  assumes "0 \<le> q" and "q \<le> 1"
  shows "residual q (sqrt (q * (1 - q))) = 0"
proof -
  have "0 \<le> q * (1 - q)"
    using assms by simp
  then have "(sqrt (q * (1 - q)))\<^sup>2 = q * (1 - q)"
    by simp
  then have "residual q (sqrt (q * (1 - q))) = (q - 1/2)\<^sup>2 + q * (1 - q) - 1/4"
    by (simp only: residual_def)
  then show ?thesis
    by (simp only: circle_algebra)
qed

lemma sqrt_quarter: "sqrt (1/4) = 1/2"
  by (simp add: real_sqrt_divide)

lemma radius_on_semicircle:
  assumes "0 \<le> q" and "q \<le> 1"
  shows "radius q = Some (1/2)"
proof -
  have nn: "0 \<le> q * (1 - q)"
    using assms by simp
  then have sq: "(sqrt (q * (1 - q)))\<^sup>2 = q * (1 - q)"
    by simp
  have "(q - 1/2)\<^sup>2 + (sqrt (q * (1 - q)))\<^sup>2 = 1/4"
    by (simp only: sq circle_algebra)
  then have "np_sqrt ((q - 1/2)\<^sup>2 + (sqrt (q * (1 - q)))\<^sup>2) = Some (1/2)"
    by (simp only: np_sqrt_def sqrt_quarter) simp
  then show ?thesis
    using assms by (simp only: radius_def c_qc_unit option.case)
qed

text \<open>
  C1. For every \<open>x\<close> strictly between 0 and 1 the circle-constraint residual at
  \<open>(x, sqrt (x (1 - x)))\<close> is exactly 0, and the point \<open>(x - 0.5, sqrt (x (1 - x)))\<close>
  has distance 0.5 from the origin.
\<close>

theorem semicircle_residual_zero:
  assumes "0 < x" and "x < 1"
  shows "edge_residual x = Some 0 \<and> radius x = Some (1/2)"
proof -
  have "edge_residual x = Some (residual x (sqrt (x * (1 - x))))"
    using assms by (simp add: edge_residual_def c_qc_unit)
  then have "edge_residual x = Some 0"
    using assms by (simp add: residual_on_semicircle)
  moreover have "radius x = Some (1/2)"
    using assms by (simp add: radius_on_semicircle)
  ultimately show ?thesis by simp
qed

theorem semicircle_residual_zero_witness:
  "edge_residual (1/2) = Some 0 \<and> radius (1/2) = Some (1/2)"
  using semicircle_residual_zero [of "1/2"] by simp

lemma quarter_bound: "q * (1 - q) \<le> (1/4::real)"
proof -
  have "0 \<le> (q - 1/2)\<^sup>2" by simp
  then show ?thesis using circle_algebra [of q] by linarith
qed

lemma sqrt_le_half: "x \<le> 1/4 \<Longrightarrow> sqrt x \<le> 1/2"
  using real_sqrt_le_mono [of x "1/4"] by (simp only: sqrt_quarter)

lemma sqrt_eq_half_iff: "sqrt x = 1/2 \<longleftrightarrow> x = 1/4"
proof
  assume "sqrt x = 1/2"
  then have "sqrt x = sqrt (1/4)" by (simp only: sqrt_quarter)
  then show "x = 1/4" by (simp only: real_sqrt_eq_iff)
next
  assume "x = 1/4"
  then show "sqrt x = 1/2" by (simp only: sqrt_quarter)
qed

lemma product_quarter_iff: "q * (1 - q) = 1/4 \<longleftrightarrow> q = (1/2::real)"
proof -
  have "q * (1 - q) = 1/4 \<longleftrightarrow> (q - 1/2)\<^sup>2 = 0"
    using circle_algebra [of q] by linarith
  then show ?thesis by simp
qed

lemma c_qc_Some_le:
  assumes "c_qc q = Some c"
  shows "c \<le> 1/2"
proof -
  have "c = sqrt (q * (1 - q))"
    using assms by (simp add: c_qc_def np_sqrt_def split: if_splits)
  then show ?thesis
    by (simp only: quarter_bound sqrt_le_half)
qed

text \<open>
  C9. For every \<open>q\<close> in the closed unit interval the correlation \<open>sqrt (q (1 - q))\<close> is a
  number between 0 and 0.5, and it is 0.5 exactly when \<open>q = 0.5\<close>. Whatever probability
  a script starts from, measured or clamped, a correlation that is a number is at most 0.5.
\<close>

theorem c_qc_bounded:
  "(0 \<le> q \<and> q \<le> 1 \<longrightarrow>
      (\<exists>c. c_qc q = Some c \<and> 0 \<le> c \<and> c \<le> 1/2 \<and> (c = 1/2 \<longleftrightarrow> q = 1/2))) \<and>
   (\<forall>c. c_qc q = Some c \<longrightarrow> c \<le> 1/2)"
proof (intro conjI impI allI)
  assume "0 \<le> q \<and> q \<le> 1"
  then have c: "c_qc q = Some (sqrt (q * (1 - q)))"
    by (simp add: c_qc_unit)
  have "0 \<le> q * (1 - q)"
    using \<open>0 \<le> q \<and> q \<le> 1\<close> by simp
  then have "0 \<le> sqrt (q * (1 - q))"
    by simp
  moreover have "sqrt (q * (1 - q)) \<le> 1/2"
    by (simp only: quarter_bound sqrt_le_half)
  moreover have "sqrt (q * (1 - q)) = 1/2 \<longleftrightarrow> q = 1/2"
    by (simp only: sqrt_eq_half_iff product_quarter_iff)
  ultimately show "\<exists>c. c_qc q = Some c \<and> 0 \<le> c \<and> c \<le> 1/2 \<and> (c = 1/2 \<longleftrightarrow> q = 1/2)"
    using c by blast
next
  fix c assume "c_qc q = Some c"
  then show "c \<le> 1/2" by (rule c_qc_Some_le)
qed

theorem c_qc_bounded_witness: "c_qc (1/2) = Some (1/2) \<and> c_qc (1/5) \<noteq> Some (1/2)"
  using c_qc_bounded [of "1/2"] c_qc_bounded [of "1/5"] by auto

lemma c_qc_zero: "c_qc 0 = Some 0" and c_qc_one: "c_qc 1 = Some 0"
  by (simp_all add: c_qc_def np_sqrt_def)

lemma deriv_total: "deriv x \<noteq> None"
  by (simp add: deriv_def np_div_def split: option.splits)

lemma deriv_pos: "c_qc x = Some y \<Longrightarrow> 0 < y \<Longrightarrow> deriv x = Some ((1 - 2 * x) / (2 * y))"
  by (simp add: deriv_def np_div_def)

lemma deriv_zero: "c_qc x = Some 0 \<Longrightarrow> deriv x = Some 0"
  by (simp add: deriv_def)

lemma dCdq_abs_deriv: "dCdq x = map_option abs (deriv x)"
proof (cases "0 < x * (1 - x)")
  case True
  then have "0 < sqrt (x * (1 - x))" by simp
  with True show ?thesis
    by (simp add: dCdq_def deriv_def c_qc_def np_sqrt_def np_div_def)
next
  case False
  then have "sqrt (x * (1 - x)) \<le> 0" by (simp add: not_less)
  with False show ?thesis
    by (simp add: dCdq_def deriv_def c_qc_def np_sqrt_def)
qed

text \<open>
  C3. The sensitivity routine returns \<open>(1 - 2x) / (2y)\<close> where \<open>y = sqrt (x (1 - x))\<close> is
  positive and exactly 0 where \<open>y = 0\<close>; it always returns a finite number, so no division
  by zero occurs; at \<open>x = 0\<close> and \<open>x = 1\<close> the correlation and the derivative are 0.
  The error-propagation multiplier of the figure script is the magnitude of this derivative.
\<close>

theorem deriv_formula_and_singularity:
  "(\<forall>y. c_qc x = Some y \<and> 0 < y \<longrightarrow> deriv x = Some ((1 - 2 * x) / (2 * y))) \<and>
   (c_qc x = Some 0 \<longrightarrow> deriv x = Some 0) \<and>
   deriv x \<noteq> None \<and>
   c_qc 0 = Some 0 \<and> c_qc 1 = Some 0 \<and> deriv 0 = Some 0 \<and> deriv 1 = Some 0 \<and>
   dCdq x = map_option abs (deriv x) \<and> dCdq 0 = Some 0 \<and> dCdq 1 = Some 0"
  by (simp add: deriv_pos deriv_zero deriv_total c_qc_zero c_qc_one dCdq_abs_deriv)

theorem deriv_formula_and_singularity_witness:
  "c_qc (1/2) = Some (1/2) \<and> deriv (1/2) = Some 0 \<and> c_qc 0 = Some 0 \<and> deriv 0 = Some 0"
proof -
  have c: "c_qc (1/2) = Some (1/2)"
    by (simp add: c_qc_def np_sqrt_def real_sqrt_divide)
  have "deriv (1/2) = Some ((1 - 2 * (1/2)) / (2 * (1/2)))"
    using deriv_formula_and_singularity [of "1/2", THEN conjunct1, rule_format, of "1/2"] c
    by simp
  then have "deriv (1/2) = Some 0"
    by simp
  with c show ?thesis
    using deriv_formula_and_singularity [of 0] by simp
qed

lemma c_qc_reflect: "c_qc (1 - x) = c_qc x"
  by (simp add: c_qc_def mult.commute)

text \<open>
  C6. The derivative is antisymmetric about \<open>x = 0.5\<close>: for \<open>x\<close> strictly between 0 and 1
  its value at \<open>1 - x\<close> is minus its value at \<open>x\<close>, and at \<open>x = 0.5\<close> it is exactly 0.
\<close>

theorem deriv_antisymmetric:
  "(0 < x \<and> x < 1 \<longrightarrow> (\<exists>d. deriv x = Some d \<and> deriv (1 - x) = Some (- d))) \<and>
   deriv (1/2) = Some 0"
proof (intro conjI impI)
  assume x: "0 < x \<and> x < 1"
  then have "0 < x * (1 - x)" by simp
  then have pos: "0 < sqrt (x * (1 - x))" by simp
  have c: "c_qc x = Some (sqrt (x * (1 - x)))"
    using x by (simp add: c_qc_unit)
  then have c': "c_qc (1 - x) = Some (sqrt (x * (1 - x)))"
    by (simp only: c_qc_reflect)
  have "deriv x = Some ((1 - 2 * x) / (2 * sqrt (x * (1 - x))))"
    using c pos by (rule deriv_pos)
  moreover have "deriv (1 - x) = Some ((1 - 2 * (1 - x)) / (2 * sqrt (x * (1 - x))))"
    using c' pos by (rule deriv_pos)
  moreover have "1 - 2 * (1 - x) = - (1 - 2 * x)"
    by simp
  then have "(1 - 2 * (1 - x)) / (2 * sqrt (x * (1 - x))) = - ((1 - 2 * x) / (2 * sqrt (x * (1 - x))))"
    by (simp only: minus_divide_left)
  ultimately show "\<exists>d. deriv x = Some d \<and> deriv (1 - x) = Some (- d)"
    by simp
next
  have "c_qc (1/2) = Some (1/2)"
    by (simp add: c_qc_def np_sqrt_def real_sqrt_divide)
  then show "deriv (1/2) = Some 0"
    by (simp add: deriv_def np_div_def)
qed

theorem deriv_antisymmetric_witness:
  "\<exists>d. deriv (1/4) = Some d \<and> deriv (1 - 1/4) = Some (- d)"
  using deriv_antisymmetric [of "1/4"] by simp

lemma sample_residual_half: "sample_residual (1/2) = 0"
proof -
  have "max 0 ((1/2) * (1 - 1/2)) = (1/4::real)" by simp
  then have "sqrt (max 0 ((1/2) * (1 - 1/2))) = 1/2"
    by (simp only: sqrt_quarter)
  then show ?thesis
    by (simp add: sample_residual_def residual_def power2_eq_square)
qed

lemma rms_zero: "rms [0] = Some 0"
  by (simp add: rms_def np_mean_def np_sqrt_def)

text \<open>
  C8. For the single sample at \<open>x = 0.5\<close>, whose observed value 0.5 is the correlation the
  script computes there, the residual list is \<open>[0]\<close>, the RMS error is 0, the maximum
  error is 0, and the pass criteria with the thresholds 0.001 and 0.01 hold.
\<close>

theorem single_sample_passes:
  "sample_residual (1/2) = \<bar>residual (1/2) (1/2)\<bar> \<and>
   random_stats [sample_residual (1/2)] = Inr (Some 0, 0) \<and>
   passed_criteria (rms [sample_residual (1/2)]) (rms [sample_residual (1/2)]) 0
     (Option.bind (those [radius (1/2)]) np_mean)"
proof -
  have a: "sample_residual (1/2) = \<bar>residual (1/2) (1/2)\<bar>"
    by (simp add: sample_residual_half residual_def power2_eq_square)
  have b: "random_stats [sample_residual (1/2)] = Inr (Some 0, 0)"
    by (simp add: sample_residual_half random_stats_def rms_zero)
  have "radius (1/2) = Some (1/2)"
    by (simp add: radius_on_semicircle)
  then have "Option.bind (those [radius (1/2)]) np_mean = Some (1/2)"
    by (simp add: np_mean_def)
  then have c: "passed_criteria (rms [sample_residual (1/2)]) (rms [sample_residual (1/2)]) 0
     (Option.bind (those [radius (1/2)]) np_mean)"
    by (simp add: sample_residual_half rms_zero passed_criteria_def np_lt_def)
  from a b c show ?thesis by simp
qed

lemma sum_squares_nonneg: "0 \<le> sum_list (map (\<lambda>r. r\<^sup>2) (rs::real list))"
  by (induction rs) simp_all

lemma rms_None_iff: "rms rs = None \<longleftrightarrow> rs = []"
proof (cases "rs = []")
  case True
  then show ?thesis by (simp add: rms_def np_mean_def)
next
  case False
  have "0 \<le> sum_list (map (\<lambda>r. r\<^sup>2) rs) / real (length rs)"
    using sum_squares_nonneg [of rs] by simp
  then have "np_sqrt (sum_list (map (\<lambda>r. r\<^sup>2) rs) / real (length rs)) \<noteq> None"
    by (simp add: np_sqrt_def not_less)
  with False show ?thesis by (simp add: rms_def np_mean_def)
qed

lemma random_stats_raises_iff: "(\<exists>e. random_stats rs = Inl e) \<longleftrightarrow> rs = []"
  by (cases rs) (simp_all add: random_stats_def)

text \<open>
  C7, as stated, fails: applied to an empty residual list the statistics of Phase 2 raise,
  because the built-in \<open>max\<close> raises \<open>ValueError\<close> on an empty sequence.
\<close>

theorem empty_sample_max_raises:
  "random_stats [] = Inl (ValueError ''max() arg is an empty sequence'')"
  by (simp add: random_stats_def)

text \<open>
  C7, amended. The RMS aggregate of an empty residual list is NaN and raises nothing, and
  the RMS is NaN only for the empty list; the statistics that include the maximum raise
  exactly for the empty list.
\<close>

theorem empty_sample_statistics:
  "rms [] = None \<and> (rms rs = None \<longleftrightarrow> rs = []) \<and> ((\<exists>e. random_stats rs = Inl e) \<longleftrightarrow> rs = [])"
  by (simp add: rms_None_iff random_stats_raises_iff)

theorem empty_sample_statistics_witness:
  "rms [] = None \<and> rms [1/2] \<noteq> None \<and> (\<forall>e. random_stats [1/2] \<noteq> Inl e)"
  using empty_sample_statistics [of "[1/2]"] by simp

lemma depth_variance_nonneg: "0 \<le> depth_variance n e"
  by (simp add: depth_variance_def)

lemma those_log_var_iff: "those (log_var vs) \<noteq> None \<longleftrightarrow> (\<forall>v\<in>set vs. 0 < v)"
  by (induction vs) (auto simp: log_var_def np_log_def split: option.splits)

lemma length_log_var: "length (log_var vs) = length vs"
  by (simp add: log_var_def)

lemma sum_sq_dev:
  "sum_list (map (\<lambda>x. (x - m)\<^sup>2) xs) =
     sum_list (map (\<lambda>x. x * x) xs) - 2 * m * sum_list xs + real (length xs) * m\<^sup>2"
  by (induction xs) (simp_all add: power2_eq_square algebra_simps)

lemma sum_sq_dev_nonneg: "0 \<le> sum_list (map (\<lambda>x. (x - m)\<^sup>2) (xs::real list))"
  by (induction xs) simp_all

lemma discriminant_algebra:
  assumes "m * n = (B::real)"
  shows "n * (A - 2 * m * B + n * m\<^sup>2) = n * A - B * B"
proof -
  have "n * (A - 2 * m * B + n * m\<^sup>2) = n * A - 2 * (m * n) * B + (m * n) * (m * n)"
    by (simp add: algebra_simps power2_eq_square)
  then show ?thesis
    by (simp only: assms)
qed

lemma sum_sq_dev_pos:
  assumes "a \<in> set (xs::real list)" and "a \<noteq> m"
  shows "0 < sum_list (map (\<lambda>x. (x - m)\<^sup>2) xs)"
  using assms
proof (induction xs)
  case Nil
  then show ?case by simp
next
  case (Cons x xs)
  have nn: "0 \<le> sum_list (map (\<lambda>x. (x - m)\<^sup>2) xs)"
    by (rule sum_sq_dev_nonneg)
  show ?case
  proof (cases "a = x")
    case True
    then have "0 < (x - m)\<^sup>2"
      using Cons.prems(2) by simp
    then have "0 < (x - m)\<^sup>2 + sum_list (map (\<lambda>x. (x - m)\<^sup>2) xs)"
      using nn by (rule add_pos_nonneg)
    then show ?thesis by simp
  next
    case False
    then have "0 < sum_list (map (\<lambda>x. (x - m)\<^sup>2) xs)"
      using Cons by simp
    moreover have "0 \<le> (x - m)\<^sup>2"
      by simp
    ultimately have "0 < (x - m)\<^sup>2 + sum_list (map (\<lambda>x. (x - m)\<^sup>2) xs)"
      by (simp add: add_nonneg_pos)
    then show ?thesis by simp
  qed
qed

lemma discriminant_nonzero:
  assumes "a \<in> set xs" and "b \<in> set xs" and "a \<noteq> b"
  shows "real (length xs) * sum_list (map (\<lambda>x. x * x) xs) - sum_list xs * sum_list xs \<noteq> 0"
proof -
  define n where "n = real (length xs)"
  define m where "m = sum_list xs / n"
  have n: "0 < n"
    using assms(1) unfolding n_def by (cases xs) simp_all
  have "a \<noteq> m \<or> b \<noteq> m"
    using assms(3) by auto
  then have pos: "0 < sum_list (map (\<lambda>x. (x - m)\<^sup>2) xs)"
    using assms(1,2) sum_sq_dev_pos by blast
  have "m * n = sum_list xs"
    using n unfolding m_def by simp
  then have "n * (sum_list (map (\<lambda>x. x * x) xs) - 2 * m * sum_list xs + n * m\<^sup>2) =
      n * sum_list (map (\<lambda>x. x * x) xs) - sum_list xs * sum_list xs"
    by (rule discriminant_algebra)
  then have "n * sum_list (map (\<lambda>x. (x - m)\<^sup>2) xs) =
      n * sum_list (map (\<lambda>x. x * x) xs) - sum_list xs * sum_list xs"
    unfolding n_def by (simp only: sum_sq_dev)
  moreover have "0 < n * sum_list (map (\<lambda>x. (x - m)\<^sup>2) xs)"
    using n pos by simp
  ultimately show ?thesis
    unfolding n_def by simp
qed

lemma coeffs_finite_iff:
  assumes "length vs = length ds" and "a \<in> set ds" and "b \<in> set ds" and "a \<noteq> b"
  shows "(\<exists>c. coeffs ds vs = Inr (Some c)) \<longleftrightarrow> (\<forall>v\<in>set vs. 0 < v)"
proof -
  have ne: "ds \<noteq> []"
    using assms(2) by auto
  have d: "real (length ds) * sum_list (map (\<lambda>x. x * x) ds) - sum_list ds * sum_list ds \<noteq> 0"
    using assms(2-4) by (rule discriminant_nonzero)
  show ?thesis
  proof (cases "those (log_var vs)")
    case None
    then have "coeffs ds vs = Inr None"
      using ne assms(1) by (simp add: coeffs_def polyfit1_def length_log_var)
    moreover have "\<not> (\<forall>v\<in>set vs. 0 < v)"
      using None those_log_var_iff [of vs] by simp
    ultimately show ?thesis by simp
  next
    case (Some zs)
    then have "\<exists>c. coeffs ds vs = Inr (Some c)"
      using ne assms(1) d by (simp add: coeffs_def polyfit1_def length_log_var Let_def)
    moreover have "\<forall>v\<in>set vs. 0 < v"
      using Some those_log_var_iff [of vs] by simp
    ultimately show ?thesis by simp
  qed
qed

lemma depth_variance_clamped: "depth_variance 16 (- 1/20) = 0"
  by (simp add: depth_variance_def power_divide)

text \<open>
  C5, as stated, fails: when the noise drives the variance at depth 16 below zero, the
  simulation clamps it to exactly 0, and the fit takes the logarithm of that 0, which is
  not finite, so that no finite fit remains.
\<close>

theorem zero_variance_reaches_log:
  "depth_variance 16 (- 1/20) = 0 \<and>
   log_var (map snd (depth_results (\<lambda>i. if i = 4 then - 1/20 else 0))) ! 4 = None \<and>
   coeffs [1, 2, 4, 8, 16] (map snd (depth_results (\<lambda>i. if i = 4 then - 1/20 else 0))) = Inr None"
proof -
  have "map snd (depth_results (\<lambda>i. if i = 4 then - 1/20 else 0)) =
      [depth_variance 1 0, depth_variance 2 0, depth_variance 4 0, depth_variance 8 0, 0]"
    using depth_variance_clamped by (simp add: depth_results_def)
  then show ?thesis
    using depth_variance_clamped
    by (simp add: log_var_def np_log_def coeffs_def polyfit1_def split: option.splits)
qed

text \<open>
  C5, amended. The simulation produces no negative variance (it clamps at 0 from below).
  The fit takes the logarithm of every variance it is given, excluding and clamping none:
  the logarithms are all finite exactly when every variance is positive, and, for depths
  that are not all equal and as many variances as depths, a finite fit exists exactly when
  every variance is positive.
\<close>

theorem log_fit_positive_only:
  "0 \<le> depth_variance n e \<and>
   (those (log_var vs) \<noteq> None \<longleftrightarrow> (\<forall>v\<in>set vs. 0 < v)) \<and>
   (length vs = length ds \<and> a \<in> set ds \<and> b \<in> set ds \<and> a \<noteq> b \<longrightarrow>
      ((\<exists>c. coeffs ds vs = Inr (Some c)) \<longleftrightarrow> (\<forall>v\<in>set vs. 0 < v)))"
proof (intro conjI impI)
  show "0 \<le> depth_variance n e" by (rule depth_variance_nonneg)
  show "those (log_var vs) \<noteq> None \<longleftrightarrow> (\<forall>v\<in>set vs. 0 < v)" by (rule those_log_var_iff)
  show "(\<exists>c. coeffs ds vs = Inr (Some c)) \<longleftrightarrow> (\<forall>v\<in>set vs. 0 < v)"
    if "length vs = length ds \<and> a \<in> set ds \<and> b \<in> set ds \<and> a \<noteq> b"
    using that coeffs_finite_iff [of vs ds a b] by blast
qed

theorem log_fit_positive_only_witness:
  "(\<exists>c. coeffs [1, 2] [1/4, 9/40] = Inr (Some c)) \<and>
   (\<forall>c. coeffs [1, 2] [1/4, 0] \<noteq> Inr (Some c)) \<and>
   those (log_var [1/4, 9/40]) \<noteq> None \<and> those (log_var [1/4, 0]) = None"
proof -
  have p: "\<forall>v\<in>set [1/4, 9/40::real]. 0 < v"
    by simp
  have q: "\<not> (\<forall>v\<in>set [1/4, 0::real]. 0 < v)"
    by simp
  have h: "length [1/4, 9/40::real] = length [1, 2::real] \<and> 1 \<in> set [1, 2::real] \<and>
      2 \<in> set [1, 2::real] \<and> (1::real) \<noteq> 2"
    by simp
  have h': "length [1/4, 0::real] = length [1, 2::real] \<and> 1 \<in> set [1, 2::real] \<and>
      2 \<in> set [1, 2::real] \<and> (1::real) \<noteq> 2"
    by simp
  have "\<exists>c. coeffs [1, 2] [1/4, 9/40] = Inr (Some c)"
    using log_fit_positive_only [of 1 0 "[1/4, 9/40]" "[1, 2]" 1 2] p h by blast
  moreover have "\<forall>c. coeffs [1, 2] [1/4, 0] \<noteq> Inr (Some c)"
    using log_fit_positive_only [of 1 0 "[1/4, 0]" "[1, 2]" 1 2] q h' by blast
  moreover have "those (log_var [1/4, 9/40]) \<noteq> None"
    using log_fit_positive_only [of 1 0 "[1/4, 9/40]" "[1, 2]" 1 2] p by blast
  moreover have "those (log_var [1/4, 0]) = None"
    using log_fit_positive_only [of 1 0 "[1/4, 0]" "[1, 2]" 1 2] q by blast
  ultimately show ?thesis by blast
qed

lemma exp_one_upper: "exp (1::real) \<le> 2733/1000"
proof -
  have "1 + (- (1/100)) \<le> exp (- (1/100) :: real)"
    by (rule exp_ge_add_one_self)
  then have "99/100 \<le> exp (- (1/100) :: real)"
    by simp
  then have "exp (1/100 :: real) \<le> 100/99"
    by (simp add: exp_minus field_simps)
  then have "exp (1/100 :: real) ^ 100 \<le> (100/99) ^ 100"
    by (intro power_mono) simp_all
  moreover have "exp (1/100 :: real) ^ 100 = exp 1"
    using exp_of_nat_mult [of 100 "1/100 :: real"] by simp
  moreover have "(100/99 :: real) ^ 100 \<le> 2733/1000"
    by (simp add: power_divide)
  ultimately show ?thesis by linarith
qed

lemma exp_one_lower: "271/100 \<le> exp (1::real)"
proof -
  have "1 + (1/8) + (1/8)\<^sup>2 / 2 \<le> exp (1/8 :: real)"
    by (rule exp_lower_Taylor_quadratic) simp
  then have "145/128 \<le> exp (1/8 :: real)"
    by (simp add: power2_eq_square)
  then have "(145/128) ^ 8 \<le> exp (1/8 :: real) ^ 8"
    by (intro power_mono) simp_all
  moreover have "exp (1/8 :: real) ^ 8 = exp 1"
    using exp_of_nat_mult [of 8 "1/8 :: real"] by simp
  moreover have "271/100 \<le> (145/128 :: real) ^ 8"
    by (simp add: power_divide)
  ultimately show ?thesis by linarith
qed

lemma exp_nat_ln: "0 < v \<Longrightarrow> exp (real n * ln v) = v ^ n"
  by (simp add: exp_of_nat_mult)

lemma fit_product:
  "(1/4 :: real) ^ 26 * (9/40) ^ 21 * (81/400) ^ 11 / ((41/250) ^ 9 * (133/1000) ^ 49) =
     3 ^ 86 * 5 ^ 131 / (8 * 41 ^ 9 * 133 ^ 49)"
  by (simp add: power_divide)

lemma fit_product_lower: "(129 * 10 ^ 11 :: real) < 3 ^ 86 * 5 ^ 131 / (8 * 41 ^ 9 * 133 ^ 49)"
proof -
  have "(129 * 10 ^ 11 :: real) * (8 * 41 ^ 9 * 133 ^ 49) < 3 ^ 86 * 5 ^ 131"
    by simp
  moreover have "(0::real) < 8 * 41 ^ 9 * 133 ^ 49"
    by simp
  ultimately show ?thesis
    by (simp only: pos_less_divide_eq)
qed

lemma fit_product_upper: "(3 ^ 86 * 5 ^ 131 / (8 * 41 ^ 9 * 133 ^ 49) :: real) < 1291 * 10 ^ 10"
proof -
  have "(3 ^ 86 * 5 ^ 131 :: real) < (1291 * 10 ^ 10) * (8 * 41 ^ 9 * 133 ^ 49)"
    by simp
  moreover have "(0::real) < 8 * 41 ^ 9 * 133 ^ 49"
    by simp
  ultimately show ?thesis
    by (simp only: pos_divide_less_eq)
qed

lemma exp_30_upper: "exp (30::real) < 129 * 10 ^ 11"
proof -
  have "exp (30::real) = exp 1 ^ 30"
    using exp_of_nat_mult [of 30 "1::real"] by simp
  also have "\<dots> \<le> (2733/1000) ^ 30"
    using exp_one_upper by (intro power_mono) simp_all
  also have "\<dots> < 129 * 10 ^ 11"
    by (simp add: power_divide)
  finally show ?thesis .
qed

lemma exp_61_lower: "(1291 * 10 ^ 10 :: real) ^ 2 < exp 61"
proof -
  have "(1291 * 10 ^ 10 :: real) ^ 2 < (271/100) ^ 61"
    by (simp add: power_divide)
  also have "\<dots> \<le> exp 1 ^ 61"
    using exp_one_lower by (intro power_mono) simp_all
  also have "\<dots> = exp (61::real)"
    using exp_of_nat_mult [of 61 "1::real"] by simp
  finally show ?thesis .
qed

lemma fit_sum_bounds:
  "30 < 26 * ln (1/4) + 21 * ln (9/40) + 11 * ln (81/400) - 9 * ln (41/250)
          - 49 * ln (133/1000 :: real) \<and>
   26 * ln (1/4) + 21 * ln (9/40) + 11 * ln (81/400) - 9 * ln (41/250)
          - 49 * ln (133/1000 :: real) < 61/2"
proof -
  define S :: real where
    "S = 26 * ln (1/4) + 21 * ln (9/40) + 11 * ln (81/400) - 9 * ln (41/250) - 49 * ln (133/1000)"
  define R :: real where
    "R = 3 ^ 86 * 5 ^ 131 / (8 * 41 ^ 9 * 133 ^ 49)"
  have "exp (26 * ln (1/4 :: real)) = (1/4) ^ 26"
    using exp_nat_ln [of "1/4" 26] by simp
  moreover have "exp (21 * ln (9/40 :: real)) = (9/40) ^ 21"
    using exp_nat_ln [of "9/40" 21] by simp
  moreover have "exp (11 * ln (81/400 :: real)) = (81/400) ^ 11"
    using exp_nat_ln [of "81/400" 11] by simp
  moreover have "exp (9 * ln (41/250 :: real)) = (41/250) ^ 9"
    using exp_nat_ln [of "41/250" 9] by simp
  moreover have "exp (49 * ln (133/1000 :: real)) = (133/1000) ^ 49"
    using exp_nat_ln [of "133/1000" 49] by simp
  ultimately have "exp S =
      (1/4) ^ 26 * (9/40) ^ 21 * (81/400) ^ 11 / ((41/250) ^ 9 * (133/1000) ^ 49)"
    unfolding S_def by (simp only: exp_add exp_diff) simp
  then have exp_S: "exp S = R"
    unfolding R_def by (simp only: fit_product)
  have "exp 30 < exp S"
    using exp_30_upper fit_product_lower unfolding exp_S R_def by (rule less_trans)
  then have lower: "30 < S"
    by simp
  have "0 < R"
    unfolding R_def by simp
  then have "R ^ 2 < (1291 * 10 ^ 10) ^ 2"
    using fit_product_upper unfolding R_def by (intro power_strict_mono) simp_all
  then have "R ^ 2 < exp 61"
    using exp_61_lower by (rule less_trans)
  moreover have "exp (2 * S) = R ^ 2"
    using exp_of_nat_mult [of 2 S] by (simp add: exp_S)
  ultimately have "exp (2 * S) < exp 61"
    by simp
  then have "S < 61/2"
    by simp
  with lower show ?thesis
    unfolding S_def by simp
qed

lemma polyfit1_depths:
  "polyfit1 [1, 2, 4, 8, 16] [Some y1, Some y2, Some y3, Some y4, Some y5] =
     Inr (Some ((- 26 * y1 - 21 * y2 - 11 * y3 + 9 * y4 + 49 * y5) / 744,
           ((y1 + y2 + y3 + y4 + y5) * 341 - 31 * (y1 + 2 * y2 + 4 * y3 + 8 * y4 + 16 * y5)) / 744))"
  by (simp add: polyfit1_def Let_def algebra_simps)

lemma log_var_scenario:
  "log_var [1/4, 9/40, 81/400, 41/250, 133/1000] =
     [Some (ln (1/4)), Some (ln (9/40)), Some (ln (81/400)), Some (ln (41/250)),
      Some (ln (133/1000))]"
  by (simp add: log_var_def np_log_def)

lemma slope_scenario:
  "map_sum id (map_option fst) (coeffs [1, 2, 4, 8, 16] [1/4, 9/40, 81/400, 41/250, 133/1000]) =
     Inr (Some (- ((26 * ln (1/4) + 21 * ln (9/40) + 11 * ln (81/400) - 9 * ln (41/250)
            - 49 * ln (133/1000)) / 744)))"
proof -
  have "map_sum id (map_option fst) (coeffs [1, 2, 4, 8, 16] [1/4, 9/40, 81/400, 41/250, 133/1000]) =
      Inr (Some ((- 26 * ln (1/4) - 21 * ln (9/40) - 11 * ln (81/400) + 9 * ln (41/250)
            + 49 * ln (133/1000)) / 744))"
    by (simp only: coeffs_def log_var_scenario polyfit1_depths map_sum.simps option.map fst_conv)
  moreover have "(- 26 * ln (1/4) - 21 * ln (9/40) - 11 * ln (81/400) + 9 * ln (41/250)
            + 49 * ln (133/1000 :: real)) / 744 =
      - ((26 * ln (1/4) + 21 * ln (9/40) + 11 * ln (81/400) - 9 * ln (41/250)
            - 49 * ln (133/1000)) / 744)"
    by (simp only: minus_divide_left) simp
  ultimately show ?thesis
    by (simp only:)
qed

lemma decay_rate_scenario:
  "decay_rate [1, 2, 4, 8, 16] [1/4, 9/40, 81/400, 41/250, 133/1000] =
     Inr (Some ((26 * ln (1/4) + 21 * ln (9/40) + 11 * ln (81/400) - 9 * ln (41/250)
            - 49 * ln (133/1000)) / 744))"
proof -
  have "decay_rate [1, 2, 4, 8, 16] [1/4, 9/40, 81/400, 41/250, 133/1000] =
      Inr (Some \<bar>(- 26 * ln (1/4) - 21 * ln (9/40) - 11 * ln (81/400) + 9 * ln (41/250)
            + 49 * ln (133/1000)) / 744\<bar>)"
    by (simp only: decay_rate_def coeffs_def log_var_scenario polyfit1_depths map_sum.simps
        option.map fst_conv)
  moreover have "(- 26 * ln (1/4) - 21 * ln (9/40) - 11 * ln (81/400) + 9 * ln (41/250)
            + 49 * ln (133/1000 :: real)) / 744 =
      - ((26 * ln (1/4) + 21 * ln (9/40) + 11 * ln (81/400) - 9 * ln (41/250)
            - 49 * ln (133/1000)) / 744)"
    by (simp only: minus_divide_left) simp
  moreover have "0 < (26 * ln (1/4) + 21 * ln (9/40) + 11 * ln (81/400) - 9 * ln (41/250)
            - 49 * ln (133/1000 :: real)) / 744"
    using fit_sum_bounds by simp
  ultimately show ?thesis
    by (simp only: abs_minus_cancel abs_of_pos)
qed

text \<open>
  C4, as stated, fails: for the variances 0.25, 0.225, 0.2025, 0.164, 0.133 at the depths
  1, 2, 4, 8, 16 the fit returns a decay rate that is below half of 0.105.
\<close>

theorem depth_fit_misses_ln09:
  "case decay_rate [1, 2, 4, 8, 16] [1/4, 9/40, 81/400, 41/250, 133/1000] of
     Inl ex \<Rightarrow> False
   | Inr r \<Rightarrow> np_lt r (1/2 * (105/1000))"
  using fit_sum_bounds by (simp only: decay_rate_scenario np_lt_def option.case sum.case) simp

lemma np_log_decay: "np_log (1/4 * (9/10) ^ n) = Some (ln (1/4) + real n * ln (9/10))"
proof -
  have pos: "0 < (9/10 :: real) ^ n"
    by simp
  have "ln (1/4 * (9/10 :: real) ^ n) = ln (1/4) + ln ((9/10) ^ n)"
    by (rule ln_mult_pos) (use pos in simp_all)
  also have "ln ((9/10 :: real) ^ n) = real n * ln (9/10)"
    by (rule ln_realpow)
  finally have "ln (1/4 * (9/10 :: real) ^ n) = ln (1/4) + real n * ln (9/10)" .
  moreover have "0 < 1/4 * (9/10 :: real) ^ n"
    using pos by (intro mult_pos_pos) simp_all
  then have "\<not> 1/4 * (9/10 :: real) ^ n \<le> 0"
    by (simp only: not_le)
  ultimately show ?thesis
    by (simp only: np_log_def if_False)
qed

lemma decay_rate_exact:
  "decay_rate [1, 2, 4, 8, 16] (map (\<lambda>n. 1/4 * (9/10) ^ n) [1, 2, 4, 8, 16]) =
     Inr (Some (- ln (9/10)))"
proof -
  have "log_var (map (\<lambda>n. 1/4 * (9/10) ^ n) [1, 2, 4, 8, 16]) =
      map (\<lambda>n. Some (ln (1/4) + real n * ln (9/10))) [1, 2, 4, 8, 16]"
    by (simp only: log_var_def list.map np_log_decay)
  then have "decay_rate [1, 2, 4, 8, 16] (map (\<lambda>n. 1/4 * (9/10) ^ n) [1, 2, 4, 8, 16]) =
      Inr (Some \<bar>ln (9/10 :: real)\<bar>)"
    by (simp add: decay_rate_def coeffs_def polyfit1_depths)
  moreover have "ln (9/10 :: real) < 0"
    by simp
  ultimately show ?thesis
    by (simp only: abs_of_neg)
qed

text \<open>
  C4, amended. For those variances at those depths the least-squares fit of the logarithm
  of the variance gives a decay rate, minus the slope, between 0.040 and 0.041. The rate
  \<open>- ln 0.9\<close> is what the fit returns, exactly, for the noise-free variances
  \<open>0.25 * 0.9 ^ depth\<close> at the same depths.
\<close>

theorem depth_fit_rate:
  "(case decay_rate [1, 2, 4, 8, 16] [1/4, 9/40, 81/400, 41/250, 133/1000] of
      Inl ex \<Rightarrow> False
    | Inr r \<Rightarrow> np_gt r (40/1000) \<and> np_lt r (41/1000)) \<and>
   map_sum id (map_option (uminus \<circ> fst))
       (coeffs [1, 2, 4, 8, 16] [1/4, 9/40, 81/400, 41/250, 133/1000]) =
     decay_rate [1, 2, 4, 8, 16] [1/4, 9/40, 81/400, 41/250, 133/1000] \<and>
   decay_rate [1, 2, 4, 8, 16] (map (\<lambda>n. 1/4 * (9/10) ^ n) [1, 2, 4, 8, 16]) =
     Inr (Some (- ln (9/10)))"
proof -
  have "map_sum id (map_option (uminus \<circ> fst))
        (coeffs [1, 2, 4, 8, 16] [1/4, 9/40, 81/400, 41/250, 133/1000]) =
      map_sum id (map_option uminus) (map_sum id (map_option fst)
        (coeffs [1, 2, 4, 8, 16] [1/4, 9/40, 81/400, 41/250, 133/1000]))"
    by (cases "coeffs [1, 2, 4, 8, 16] [1/4, 9/40, 81/400, 41/250, 133/1000]")
      (simp_all add: option.map_comp comp_def)
  then have "map_sum id (map_option (uminus \<circ> fst))
        (coeffs [1, 2, 4, 8, 16] [1/4, 9/40, 81/400, 41/250, 133/1000]) =
      decay_rate [1, 2, 4, 8, 16] [1/4, 9/40, 81/400, 41/250, 133/1000]"
    by (simp only: slope_scenario decay_rate_scenario map_sum.simps option.map minus_minus)
  then show ?thesis
    using fit_sum_bounds
    by (simp only: decay_rate_scenario decay_rate_exact np_lt_def np_gt_def option.case sum.case)
      simp
qed

text \<open>
  C10, as stated, fails: a test number that is not in \<open>TESTS\<close> makes the function raise
  \<open>ValueError\<close> to its caller, before the \<open>try\<close> block is entered.
\<close>

theorem invalid_test_number_raises:
  "run_qsharp_test simulator 4 ''ionq.simulator'' 10 None = Inl (ValueError ''Invalid test number'')"
  by (simp add: run_qsharp_test_def TESTS_def)

lemma measure_all_length:
  "measure_all e entry n i qs acc = (ms, None) \<Longrightarrow> length ms = length acc + length qs"
proof (induction qs arbitrary: i acc)
  case Nil
  then show ?case by simp
next
  case (Cons q qs)
  then show ?case
    by (auto simp: Let_def split: sum.splits prod.splits if_splits)
qed

lemma summarise_fields:
  "summarise r = (r', x) \<Longrightarrow> error r' = error r \<and> measurements r' = measurements r"
  by (auto simp: summarise_def Let_def split: if_splits sum.splits)

lemma try_body_error: "try_body e info qs r = (r', x) \<Longrightarrow> error r' = error r"
  by (auto simp: try_body_def split: option.splits prod.splits dest: summarise_fields)

text \<open>
  C10, amended. For a test number in \<open>TESTS\<close> whose Q\# file exists and a list of q values
  that is not empty: without the Q\# SDK the function returns the results with the fixed
  \<open>error\<close> message and \<open>passed\<close> not set. With the SDK, when a step inside the \<open>try\<close> block
  raises an exception of class \<open>Exception\<close>, the function catches it and returns the
  results, where \<open>error\<close> holds the message of the exception and \<open>passed\<close> is False; when
  the step raises an exception outside that class (\<open>KeyboardInterrupt\<close>, \<open>SystemExit\<close>),
  the exception reaches the caller; when no step raises, the function returns the results
  without an \<open>error\<close>.
\<close>

theorem run_qsharp_test_catches:
  assumes "TESTS test_num = Some info"
    and "file_exists e (file info)"
    and "(case q_values_arg of None \<Rightarrow> q_values info | Some qs \<Rightarrow> qs) \<noteq> []"
    and "raised = snd (try_body e info
                        (case q_values_arg of None \<Rightarrow> q_values info | Some qs \<Rightarrow> qs)
                        (initial_results e test_num info tgt n_shots))"
  shows "(\<not> QSHARP_AVAILABLE e \<longrightarrow>
            (\<exists>r. run_qsharp_test e test_num tgt n_shots q_values_arg = Inr r \<and>
                 error r = Some ''Q# SDK not installed'' \<and> passed r = None)) \<and>
         (QSHARP_AVAILABLE e \<longrightarrow>
            (\<forall>ex. raised = Some ex \<and> isinstance_Exception ex \<longrightarrow>
               (\<exists>r. run_qsharp_test e test_num tgt n_shots q_values_arg = Inr r \<and>
                    error r = Some (str ex) \<and> passed r = Some False)) \<and>
            (\<forall>ex. raised = Some ex \<and> \<not> isinstance_Exception ex \<longrightarrow>
               run_qsharp_test e test_num tgt n_shots q_values_arg = Inl ex) \<and>
            (raised = None \<longrightarrow>
               (\<exists>r. run_qsharp_test e test_num tgt n_shots q_values_arg = Inr r \<and>
                    error r = None)))"
proof (cases "QSHARP_AVAILABLE e")
  case False
  with assms show ?thesis
    by (simp add: run_qsharp_test_def initial_results_def)
next
  case True
  obtain r' x where b: "try_body e info
      (case q_values_arg of None \<Rightarrow> q_values info | Some qs \<Rightarrow> qs)
      (initial_results e test_num info tgt n_shots) = (r', x)"
    by (cases "try_body e info
      (case q_values_arg of None \<Rightarrow> q_values info | Some qs \<Rightarrow> qs)
      (initial_results e test_num info tgt n_shots)") auto
  then have "error r' = error (initial_results e test_num info tgt n_shots)"
    by (rule try_body_error)
  then have err: "error r' = None"
    by (simp add: initial_results_def)
  from b assms(4) have x: "raised = x"
    by simp
  show ?thesis
    using True assms(1-3) b err x
    by (auto simp: run_qsharp_test_def Let_def)
qed

theorem run_qsharp_test_catches_witness:
  "(\<exists>r. run_qsharp_test simulator 1 ''ionq.simulator'' 0 (Some [1/2]) = Inr r \<and>
        error r = Some ''division by zero'' \<and> passed r = Some False) \<and>
   run_qsharp_test interrupted 1 ''ionq.simulator'' 10 (Some [1/2]) = Inl KeyboardInterrupt \<and>
   (\<exists>r. run_qsharp_test (simulator\<lparr>QSHARP_AVAILABLE := False\<rparr>) 1 ''ionq.simulator'' 10
          (Some [1/2]) = Inr r \<and>
        error r = Some ''Q# SDK not installed'' \<and> passed r = None)"
proof -
  obtain info where t: "TESTS 1 = Some info"
    by (simp add: TESTS_def)
  have f: "file_exists simulator (file info)" "file_exists interrupted (file info)"
    "file_exists (simulator\<lparr>QSHARP_AVAILABLE := False\<rparr>) (file info)"
    by (simp_all add: simulator_def interrupted_def)
  have q: "QSHARP_AVAILABLE simulator" "QSHARP_AVAILABLE interrupted"
    by (simp_all add: simulator_def interrupted_def)
  have n: "(case Some [1/2::real] of None \<Rightarrow> q_values info | Some qs \<Rightarrow> qs) \<noteq> []"
    by simp
  have z: "snd (try_body simulator info (case Some [1/2] of None \<Rightarrow> q_values info | Some qs \<Rightarrow> qs)
        (initial_results simulator 1 info ''ionq.simulator'' 0))
      = Some (ZeroDivisionError ''division by zero'')"
    by (simp add: try_body_def simulator_def initial_results_def)
  have k: "snd (try_body interrupted info (case Some [1/2] of None \<Rightarrow> q_values info | Some qs \<Rightarrow> qs)
        (initial_results interrupted 1 info ''ionq.simulator'' 10))
      = Some KeyboardInterrupt"
    by (simp add: try_body_def simulator_def interrupted_def initial_results_def)
  have "\<exists>r. run_qsharp_test simulator 1 ''ionq.simulator'' 0 (Some [1/2]) = Inr r \<and>
        error r = Some ''division by zero'' \<and> passed r = Some False"
    using run_qsharp_test_catches [OF t f(1) n z [symmetric]] q(1) by simp
  moreover have "run_qsharp_test interrupted 1 ''ionq.simulator'' 10 (Some [1/2]) = Inl KeyboardInterrupt"
    using run_qsharp_test_catches [OF t f(2) n k [symmetric]] q(2) by simp
  moreover have "\<exists>r. run_qsharp_test (simulator\<lparr>QSHARP_AVAILABLE := False\<rparr>) 1 ''ionq.simulator'' 10
          (Some [1/2]) = Inr r \<and>
        error r = Some ''Q# SDK not installed'' \<and> passed r = None"
    using run_qsharp_test_catches [OF t f(3) n refl, of "''ionq.simulator''" 10] by simp
  ultimately show ?thesis by simp
qed

text \<open>
  C2, as stated, fails: with one measurement, at \<open>q = 0.5\<close> with ten shots that are all 0,
  the verdict of the hardware runner is True although the maximum error is 0.5, which is
  not below the threshold 0.01.
\<close>

theorem single_measurement_passes:
  "map_sum str passed (run_qsharp_test simulator 1 ''ionq.simulator'' 10 (Some [1/2]))
     = Inr (Some True) \<and>
   map_sum str (map_option max_q_error \<circ> summary)
       (run_qsharp_test simulator 1 ''ionq.simulator'' 10 (Some [1/2]))
     = Inr (Some (1/2)) \<and>
   \<not> (1/2 :: real) < 1/100"
  by (simp add: run_qsharp_test_def TESTS_def simulator_def initial_results_def try_body_def
      summarise_def correlation_of_def py_round_def np_gt_def Let_def)

lemma py_max_nonempty: "xs \<noteq> [] \<Longrightarrow> \<exists>m. py_max xs = Inr m"
  by (cases xs) simp_all

lemma summarise_verdict:
  assumes "summarise r = (r', None)" and "measurements r \<noteq> []"
  shows "passed r' = Some (np_gt (correlation_of (measurements r')) (9/10))"
proof -
  obtain mx where "py_max (map abs (map (\<lambda>m. q_measured m - q_theory m) (measurements r))) = Inr mx"
    using assms(2) py_max_nonempty [of "map abs (map (\<lambda>m. q_measured m - q_theory m) (measurements r))"]
    by auto
  then show ?thesis
    using assms by (auto simp: summarise_def Let_def)
qed

lemma try_body_verdict:
  assumes "try_body e info qs r = (r', None)" and "qs \<noteq> []"
  shows "passed r' = Some (np_gt (correlation_of (measurements r')) (9/10))"
proof -
  from assms(1) obtain ms where m: "measure_all e (entry_point info) (shots r) 0 qs (measurements r) = (ms, None)"
    and s: "summarise (r\<lparr>measurements := ms\<rparr>) = (r', None)"
    by (auto simp: try_body_def split: option.splits prod.splits)
  from m have "length ms = length (measurements r) + length qs"
    by (rule measure_all_length)
  with assms(2) have "ms \<noteq> []"
    by auto
  then have "measurements (r\<lparr>measurements := ms\<rparr>) \<noteq> []"
    by simp
  with s show ?thesis
    by (rule summarise_verdict)
qed

lemma run_qsharp_test_verdict:
  assumes "run_qsharp_test e test_num tgt n_shots q_values_arg = Inr r" and "error r = None"
  shows "passed r = Some (np_gt (correlation_of (measurements r)) (9/10))"
proof -
  from assms(1) obtain info where info: "TESTS test_num = Some info"
    by (auto simp: run_qsharp_test_def split: option.splits)
  define qs where "qs = (case q_values_arg of None \<Rightarrow> q_values info | Some qs \<Rightarrow> qs)"
  from assms(1) info have ne: "qs \<noteq> []"
    unfolding qs_def by (auto simp: run_qsharp_test_def Let_def split: if_splits)
  from assms info have "try_body e info qs (initial_results e test_num info tgt n_shots) = (r, None)"
    unfolding qs_def
    by (auto simp: run_qsharp_test_def Let_def split: if_splits prod.splits option.splits)
  then show ?thesis
    using ne by (rule try_body_verdict)
qed

lemma run_test26_verdict:
  assumes "run_test26_semicircle_constraint noise1 theta noise2 = Inr t"
  shows "test26_result.passed t =
      (np_lt (rms_uniform t) (1/1000) \<and> np_lt (rms_random t) (1/1000) \<and>
       max_residual t < 1/100 \<and>
       np_lt (map_option (\<lambda>m. \<bar>m - 1/2\<bar>) (mean_radius t)) (1/1000))"
  using assms
  by (auto simp: run_test26_semicircle_constraint_def passed_criteria_def Let_def
      split: sum.splits prod.splits)

text \<open>
  C2, amended. The verdict of the semicircle test is the conjunction of four checks with
  fixed thresholds: both RMS residuals below 0.001, the maximum residual below 0.01, and
  the mean radius within 0.001 of 0.5. The verdict of the hardware runner, when the run
  completes without an error, is that the correlation of theory and measurement exceeds
  0.9; neither an RMS error nor a maximum error enters it.
\<close>

theorem verdict_criteria:
  "(run_test26_semicircle_constraint noise1 theta noise2 = Inr t \<longrightarrow>
      test26_result.passed t =
        (np_lt (rms_uniform t) (1/1000) \<and> np_lt (rms_random t) (1/1000) \<and>
         max_residual t < 1/100 \<and>
         np_lt (map_option (\<lambda>m. \<bar>m - 1/2\<bar>) (mean_radius t)) (1/1000))) \<and>
   (run_qsharp_test e test_num tgt n_shots q_values_arg = Inr r \<and> error r = None \<longrightarrow>
      passed r = Some (np_gt (correlation_of (measurements r)) (9/10)))"
  using run_test26_verdict run_qsharp_test_verdict by blast

lemma clip_in_unit:
  "0 \<le> np_clip x (1/1000) (999/1000) \<and> np_clip x (1/1000) (999/1000) \<le> 1"
  by (simp add: np_clip_def min_def max_def)

lemma sample_residual_zero:
  assumes "0 \<le> q" and "q \<le> 1"
  shows "sample_residual q = 0"
proof -
  have "0 \<le> q * (1 - q)"
    using assms by simp
  then have "max 0 (q * (1 - q)) = q * (1 - q)"
    by simp
  then show ?thesis
    using assms by (simp add: sample_residual_def residual_on_semicircle)
qed

lemma residuals_uniform_zero: "set (residuals_uniform noise) \<subseteq> {0}"
  using clip_in_unit by (auto simp: residuals_uniform_def sample_residual_zero)

lemma residuals_random_zero: "set (residuals_random theta noise) \<subseteq> {0}"
  using clip_in_unit by (auto simp: residuals_random_def sample_residual_zero)

lemma residuals_uniform_nonempty: "residuals_uniform noise \<noteq> []"
proof -
  have "length (residuals_uniform noise) = 50"
    by (simp add: residuals_uniform_def linspace_def)
  then show ?thesis by auto
qed

lemma residuals_random_nonempty: "residuals_random theta noise \<noteq> []"
  by (simp add: residuals_random_def)

lemma sum_squares_zero: "set rs \<subseteq> {0} \<Longrightarrow> sum_list (map (\<lambda>r. r\<^sup>2) rs) = (0::real)"
  by (induction rs) simp_all

lemma rms_all_zero: "rs \<noteq> [] \<Longrightarrow> set rs \<subseteq> {0} \<Longrightarrow> rms rs = Some 0"
  by (simp add: rms_def np_mean_def np_sqrt_def sum_squares_zero)

lemma fold_max_zero: "set xs \<subseteq> {0} \<Longrightarrow> fold max xs (0::real) = 0"
  by (induction xs) simp_all

lemma py_max_all_zero: "rs \<noteq> [] \<Longrightarrow> set rs \<subseteq> {0} \<Longrightarrow> py_max rs = Inr 0"
  by (cases rs) (simp_all add: fold_max_zero)

lemma linspace_in_unit:
  assumes "q \<in> set (linspace (1/100) (99/100) 100)"
  shows "0 \<le> q \<and> q \<le> 1"
proof -
  from assms obtain i :: nat where i: "i < 100" and q: "q = 1/100 + real i * ((99/100 - 1/100) / real (100 - 1))"
    by (auto simp: linspace_def)
  have "real i \<le> 99"
    using i by simp
  then show ?thesis
    unfolding q by simp
qed

lemma those_map_const:
  "\<forall>x\<in>set xs. f x = Some c \<Longrightarrow> those (map f xs) = Some (replicate (length xs) c)"
  by (induction xs) simp_all

lemma those_radii: "those radii = Some (replicate 100 (1/2))"
proof -
  have "\<forall>q\<in>set (linspace (1/100) (99/100) 100). radius q = Some (1/2)"
    using linspace_in_unit by (simp add: radius_on_semicircle)
  then have "those (map radius (linspace (1/100) (99/100) 100)) =
      Some (replicate (length (linspace (1/100) (99/100) 100)) (1/2))"
    by (rule those_map_const)
  then show ?thesis
    by (simp add: radii_def linspace_def)
qed

lemma mean_radii: "Option.bind (those radii) np_mean = Some (1/2)"
  by (simp add: those_radii np_mean_def sum_list_replicate)

lemma run_test26_always_passes:
  "\<exists>t. run_test26_semicircle_constraint noise1 theta noise2 = Inr t \<and>
       test26_result.passed t \<and> rms_uniform t = Some 0 \<and> rms_random t = Some 0 \<and>
       max_residual t = 0 \<and> mean_radius t = Some (1/2)"
proof -
  have u: "rms (residuals_uniform noise1) = Some 0"
    by (simp add: rms_all_zero residuals_uniform_nonempty residuals_uniform_zero)
  have r: "random_stats (residuals_random theta noise2) = Inr (Some 0, 0)"
    by (simp add: random_stats_def rms_all_zero py_max_all_zero
        residuals_random_nonempty residuals_random_zero)
  show ?thesis
    by (simp add: run_test26_semicircle_constraint_def u r mean_radii passed_criteria_def np_lt_def
        Let_def)
qed

text \<open>
  The two verdicts at concrete inputs: the simulation without noise, and one measurement
  on the example device.
\<close>

theorem verdict_criteria_witness:
  "(\<exists>t. run_test26_semicircle_constraint (\<lambda>_. 0) (\<lambda>_. 0) (\<lambda>_. 0) = Inr t \<and>
        np_lt (rms_uniform t) (1/1000) \<and> np_lt (rms_random t) (1/1000) \<and>
        max_residual t < 1/100 \<and>
        np_lt (map_option (\<lambda>m. \<bar>m - 1/2\<bar>) (mean_radius t)) (1/1000)) \<and>
   (\<exists>r. run_qsharp_test simulator 1 ''ionq.simulator'' 10 (Some [1/2]) = Inr r \<and>
        error r = None \<and> passed r = Some (np_gt (correlation_of (measurements r)) (9/10)))"
proof -
  obtain t where t: "run_test26_semicircle_constraint (\<lambda>_. 0) (\<lambda>_. 0) (\<lambda>_. 0) = Inr t"
    and p: "test26_result.passed t"
    using run_test26_always_passes [of "\<lambda>_. 0" "\<lambda>_. 0" "\<lambda>_. 0"] by blast
  obtain r where r: "run_qsharp_test simulator 1 ''ionq.simulator'' 10 (Some [1/2]) = Inr r"
    and e: "error r = None"
    by (simp add: run_qsharp_test_def TESTS_def simulator_def initial_results_def try_body_def
      summarise_def correlation_of_def py_round_def np_gt_def Let_def)
  note v = verdict_criteria [of "\<lambda>_. 0" "\<lambda>_. 0" "\<lambda>_. 0" t simulator 1 "''ionq.simulator''" 10 "Some [1/2]" r]
  from v t p have "np_lt (rms_uniform t) (1/1000) \<and> np_lt (rms_random t) (1/1000) \<and>
        max_residual t < 1/100 \<and>
        np_lt (map_option (\<lambda>m. \<bar>m - 1/2\<bar>) (mean_radius t)) (1/1000)"
    by blast
  moreover from v r e have "passed r = Some (np_gt (correlation_of (measurements r)) (9/10))"
    by blast
  ultimately show ?thesis
    using t r e by blast
qed

end
